theory Spec2Isabelle
  imports Complex_Main "HOL-Library.Monad_Syntax"
begin

section \<open>The double pendulum of \<open>simulations/double_pendulum.py\<close>\<close>

text \<open>
  The script integrates the equations of motion of a double pendulum, checks that the
  total energy is conserved, converts the angles to Cartesian coordinates and draws each
  frame with a fading trail of the second bob.

  Python floats and numpy arrays of floats are modelled by \<^typ>\<open>real\<close> and
  \<^typ>\<open>real list\<close>: every statement below is about the arithmetic the formulas denote,
  not about rounding. Python integers (frame and segment indices) are \<^typ>\<open>int\<close>.
  The numerical integrator \<open>odeint\<close> is a library function; its result \<open>y\<close> is an
  argument of everything that consumes it.
\<close>

subsection \<open>Module-level parameters\<close>

text \<open>
  \<open>L1, L2 = 1, 1\<close> and \<open>m1, m2 = 1, 1\<close> are module globals. \<open>total_energy\<close> and the
  Cartesian conversion read them as globals, so they are passed explicitly as a record;
  \<open>derive\<close> receives them as arguments (\<open>args=(L1, L2, m1, m2)\<close>). \<open>g\<close> is read as a
  global by both functions.
\<close>

record params =
  L1 :: real
  L2 :: real
  m1 :: real
  m2 :: real

definition globals :: params where
  "globals = \<lparr>L1 = 1, L2 = 1, m1 = 1, m2 = 1\<rparr>"

definition g :: real where
  "g = 9.81"

type_synonym state = "real \<times> real \<times> real \<times> real"

subsection \<open>\<open>derive\<close>\<close>

text \<open>
  A float division by zero gives \<open>inf\<close> or \<open>nan\<close> in numpy; the reals have no such
  values, so a division whose divisor is zero yields \<open>None\<close> (a non-finite result) and
  \<open>None\<close> propagates through the rest of the expression.
\<close>

definition fdiv :: "real \<Rightarrow> real \<Rightarrow> real option" where
  "fdiv a b = (if b = 0 then None else Some (a / b))"

definition derive :: "state \<Rightarrow> real \<Rightarrow> real \<Rightarrow> real \<Rightarrow> real \<Rightarrow> real \<Rightarrow> state option" where
  "derive y t L_1 L_2 m_1 m_2 =
     (case y of (theta_1, z1, theta_2, z2) \<Rightarrow>
        let c = cos (theta_1 - theta_2); s = sin (theta_1 - theta_2);
            theta1dot = z1;
            theta2dot = z2
        in do {
          q1 \<leftarrow> fdiv (m_2 * g * sin theta_2 * c
                      - m_2 * s * (L_1 * z1 ^ 2 * c + L_2 * z2 ^ 2)
                      - (m_1 + m_2) * g * sin theta_1) L_1;
          z1dot \<leftarrow> fdiv q1 (m_1 + m_2 * s ^ 2);
          q2 \<leftarrow> fdiv ((m_1 + m_2) * (L_1 * z1 ^ 2 * s - g * sin theta_2 + g * sin theta_1 * c)
                      + m_2 * L_2 * z2 ^ 2 * s * c) L_2;
          z2dot \<leftarrow> fdiv q2 (m_1 + m_2 * s ^ 2);
          Some (theta1dot, z1dot, theta2dot, z2dot)
        })"

subsection \<open>\<open>total_energy\<close>\<close>

text \<open>
  The two local variables \<open>potential\<close> and \<open>kinetic\<close> of \<open>total_energy\<close> are
  definitions of their own, so that each can be named in a statement.
\<close>

definition potential :: "params \<Rightarrow> state \<Rightarrow> real" where
  "potential p y =
     (case y of (th1, th1d, th2, th2d) \<Rightarrow>
        - (m1 p + m2 p) * L1 p * g * cos th1 - m2 p * L2 p * g * cos th2)"

definition kinetic :: "params \<Rightarrow> state \<Rightarrow> real" where
  "kinetic p y =
     (case y of (th1, th1d, th2, th2d) \<Rightarrow>
        0.5 * m1 p * (L1 p * th1d) ^ 2
        + 0.5 * m2 p * ((L1 p * th1d) ^ 2 + (L2 p * th2d) ^ 2
                        + 2 * L1 p * L2 p * th1d * th2d * cos (th1 - th2)))"

definition total_energy :: "params \<Rightarrow> state \<Rightarrow> real" where
  "total_energy p y = potential p y + kinetic p y"

subsection \<open>The energy check and the Cartesian conversion\<close>

text \<open>
  \<open>sys.exit(arg)\<close> raises \<open>SystemExit\<close>: an integer argument is the exit status; any
  other object is printed to the standard error stream and the exit status is 1.
  The argument built by \<open>'...{}...'.format(v)\<close> is kept as the template together with
  the list of formatted values, so that what a message reports can be read off it.
\<close>

datatype message = Format string "real list"

datatype exit_arg = Status int | Message message

datatype py_error = SystemExit exit_arg

fun exit_status :: "py_error \<Rightarrow> int" where
  "exit_status (SystemExit (Status n)) = n"
| "exit_status (SystemExit (Message msg)) = 1"

fun reports :: "message \<Rightarrow> real \<Rightarrow> bool" where
  "reports (Format template args) v = (v \<in> set args)"

definition EDRIFT :: real where
  "EDRIFT = 0.05"

definition trail_secs :: real where
  "trail_secs = 0.5"

definition dt :: real where
  "dt = 0.01"

definition r :: real where
  "r = 0.05"

text \<open>\<open>int(x)\<close> of a float truncates towards zero.\<close>

definition py_int :: "real \<Rightarrow> int" where
  "py_int x = (if 0 \<le> x then \<lfloor>x\<rfloor> else \<lceil>x\<rceil>)"

text \<open>
  The module globals that \<open>make_plot\<close> reads: the four coordinate arrays and the length
  of the trail in samples.
\<close>

record scene =
  x1 :: "real list"
  y1 :: "real list"
  x2 :: "real list"
  y2 :: "real list"
  max_trail :: int

text \<open>
  \<open>np.sum(np.abs(total_energy(y) - E))\<close>: the energy of every row of \<open>y\<close>, the absolute
  deviation from \<open>E\<close> element by element, and the sum of the array. The sum is a
  scalar, and \<open>np.max\<close> of a scalar is that scalar.
\<close>

definition energy_drift :: "params \<Rightarrow> state \<Rightarrow> state list \<Rightarrow> real" where
  "energy_drift p y0 y =
     (let E = total_energy p y0
      in sum_list (map (\<lambda>row. \<bar>total_energy p row - E\<bar>) y))"

text \<open>
  Lines 60 to 81 of the script, as a function of the globals \<open>p\<close>, the initial state
  \<open>y0\<close> and the result \<open>y\<close> of \<open>odeint\<close>. \<open>Inl\<close> is the exit of the process; \<open>Inr\<close> is
  the data left for the animation.
\<close>

definition script :: "params \<Rightarrow> state \<Rightarrow> state list \<Rightarrow> py_error + scene" where
  "script p y0 y =
     (if energy_drift p y0 y > EDRIFT
      then Inl (SystemExit (Message (Format ''Maximum energy drift of {} exceeded.'' [EDRIFT])))
      else
        let theta_1 = map (\<lambda>(a, b, c, d). a) y;
            theta_2 = map (\<lambda>(a, b, c, d). c) y;
            x_1 = map (\<lambda>th. L1 p * sin th) theta_1;
            y_1 = map (\<lambda>th. - L1 p * cos th) theta_1;
            x_2 = map2 (\<lambda>a th. a + L2 p * sin th) x_1 theta_2;
            y_2 = map2 (\<lambda>b th. b - L2 p * cos th) y_1 theta_2
        in Inr \<lparr>x1 = x_1, y1 = y_1, x2 = x_2, y2 = y_2,
                max_trail = py_int (trail_secs / dt)\<rparr>)"

subsection \<open>\<open>make_plot\<close>\<close>

text \<open>
  Indexing \<open>a[i]\<close>: a negative index counts from the end, and an index out of range
  raises \<open>IndexError\<close>, which is the only error of \<open>make_plot\<close> and is modelled by
  \<open>None\<close>.
\<close>

definition getitem :: "'a list \<Rightarrow> int \<Rightarrow> 'a option" where
  "getitem xs i =
     (let n = int (length xs); k = (if i < 0 then i + n else i)
      in if 0 \<le> k \<and> k < n then Some (xs ! nat k) else None)"

text \<open>
  Slicing \<open>a[lo:hi]\<close>: a negative bound counts from the end, both bounds are clamped
  to the array, and the slice is empty when the upper bound is not above the lower.
\<close>

definition slice_index :: "nat \<Rightarrow> int \<Rightarrow> nat" where
  "slice_index n k = (if k < 0 then nat (max 0 (k + int n)) else min n (nat k))"

definition slice :: "'a list \<Rightarrow> int \<Rightarrow> int \<Rightarrow> 'a list" where
  "slice xs lo hi =
     (let n = length xs; a = slice_index n lo; b = slice_index n hi
      in take (b - a) (drop a xs))"

text \<open>One call of \<open>ax.plot(xs, ys, ..., alpha=alpha)\<close> in the trail loop.\<close>

record segment =
  seg_x :: "real list"
  seg_y :: "real list"
  alpha :: real

text \<open>
  What one call of \<open>make_plot\<close> draws: the rods, the three circles (centre and radius)
  and the trail segments in the order of the calls.
\<close>

record frame =
  rod_x :: "real list"
  rod_y :: "real list"
  circles :: "((real \<times> real) \<times> real) list"
  trail :: "segment list"

text \<open>The body of \<open>for j in range(ns)\<close>, over the values of \<open>j\<close> still to come.\<close>

fun trail_loop :: "scene \<Rightarrow> int \<Rightarrow> int \<Rightarrow> int \<Rightarrow> int list \<Rightarrow> segment list" where
  "trail_loop sc i ns s [] = []"
| "trail_loop sc i ns s (j # js) =
     (let imin = i - (ns - j) * s
      in if imin < 0 then trail_loop sc i ns s js
         else
           let imax = imin + s + 1;
               al = (real_of_int j / real_of_int ns) ^ 2
           in \<lparr>seg_x = slice (x2 sc) imin imax, seg_y = slice (y2 sc) imin imax, alpha = al\<rparr>
              # trail_loop sc i ns s js)"

text \<open>
  The trail of frame \<open>i\<close>: \<open>ns = 20\<close>, \<open>s = max_trail // ns\<close> (floor division, which is
  \<open>div\<close> on \<^typ>\<open>int\<close>) and the loop over \<open>range(ns)\<close>.
\<close>

definition trail_at :: "scene \<Rightarrow> int \<Rightarrow> segment list" where
  "trail_at sc i =
     (let ns = 20; s = max_trail sc div ns
      in trail_loop sc i ns s [0 .. ns - 1])"

definition make_plot :: "scene \<Rightarrow> int \<Rightarrow> frame option" where
  "make_plot sc i =
     do {
       x1i \<leftarrow> getitem (x1 sc) i;
       x2i \<leftarrow> getitem (x2 sc) i;
       y1i \<leftarrow> getitem (y1 sc) i;
       y2i \<leftarrow> getitem (y2 sc) i;
       Some \<lparr>rod_x = [0, x1i, x2i], rod_y = [0, y1i, y2i],
             circles = [((0, 0), r / 2), ((x1i, y1i), r), ((x2i, y2i), r)],
             trail = trail_at sc i\<rparr>
     }"

subsection \<open>The trail as the specification words it\<close>

text \<open>
  For \<open>j\<close> in \<open>0..ns-1\<close> with \<open>imin = i - (ns-j)*s\<close> not negative, in this order, one
  segment whose points are the samples \<open>imin, ..., imin + s\<close> of the second bob that
  exist in the trajectory, with \<open>alpha = (j/ns)\<^sup>2\<close>; no segment for the other \<open>j\<close>.
\<close>

definition trail_spec :: "scene \<Rightarrow> int \<Rightarrow> segment list" where
  "trail_spec sc i =
     (let ns = 20; s = max_trail sc div ns
      in map (\<lambda>j. let imin = nat (i - (ns - j) * s); imax = imin + nat s + 1
                  in \<lparr>seg_x = map (\<lambda>k. x2 sc ! k) [imin ..< min imax (length (x2 sc))],
                      seg_y = map (\<lambda>k. y2 sc ! k) [imin ..< min imax (length (y2 sc))],
                      alpha = (real_of_int j / real_of_int ns) ^ 2\<rparr>)
             (filter (\<lambda>j. \<not> i - (ns - j) * s < 0) [0 .. ns - 1]))"

subsection \<open>Swapping the two pendulums\<close>

definition swap_state :: "state \<Rightarrow> state" where
  "swap_state y = (case y of (th1, th1d, th2, th2d) \<Rightarrow> (th2, th2d, th1, th1d))"

definition swap_params :: "params \<Rightarrow> params" where
  "swap_params p = \<lparr>L1 = L2 p, L2 = L1 p, m1 = m2 p, m2 = m1 p\<rparr>"

subsection \<open>A pendulum at rest\<close>

text \<open>
  The scene that the script leaves for a pendulum hanging at rest for \<open>n\<close> samples, with
  the script's own parameters; it is the concrete input of the examples below.
\<close>

definition scene_at_rest :: "nat \<Rightarrow> scene" where
  "scene_at_rest n =
     \<lparr>x1 = replicate n 0, y1 = replicate n (- 1), x2 = replicate n 0, y2 = replicate n (- 2),
      max_trail = 50\<rparr>"

section \<open>Theorems\<close>

subsection \<open>The equations of motion\<close>

lemma fdiv_Some: "b \<noteq> 0 \<Longrightarrow> fdiv a b = Some (a / b)"
  by (simp add: fdiv_def)

lemma shared_denominator_pos:
  fixes m_1 m_2 x :: real
  assumes "0 < m_1" and "0 \<le> m_2"
  shows "0 < m_1 + m_2 * x ^ 2"
proof -
  have "0 \<le> m_2 * x ^ 2"
    using assms(2) by (intro mult_nonneg_nonneg) simp_all
  with assms(1) show ?thesis by linarith
qed

text \<open>
  Claim C5. For every state \<open>(theta1, omega1, theta2, omega2)\<close> and positive lengths and
  masses, \<open>derive\<close> returns \<open>(omega1, domega1, omega2, domega2)\<close>, where with
  \<open>c = cos (theta1 - theta2)\<close> and \<open>s = sin (theta1 - theta2)\<close> the two accelerations are the
  quotients of the specification, each over the single divisor \<open>L * (m1 + m2 * s\<^sup>2)\<close>.
  The source divides twice in a row (\<open>/ L1 / (m1 + m2 * s ** 2)\<close>); over the reals this
  is the division by the product.
\<close>

theorem derive_formula:
  assumes "0 < L_1" and "0 < L_2" and "0 < m_1" and "0 < m_2"
  shows "derive (theta1, omega1, theta2, omega2) t L_1 L_2 m_1 m_2 =
           (let c = cos (theta1 - theta2); s = sin (theta1 - theta2)
            in Some (omega1,
                     (m_2 * g * sin theta2 * c - m_2 * s * (L_1 * omega1 ^ 2 * c + L_2 * omega2 ^ 2)
                        - (m_1 + m_2) * g * sin theta1) / (L_1 * (m_1 + m_2 * s ^ 2)),
                     omega2,
                     ((m_1 + m_2) * (L_1 * omega1 ^ 2 * s - g * sin theta2 + g * sin theta1 * c)
                        + m_2 * L_2 * omega2 ^ 2 * s * c) / (L_2 * (m_1 + m_2 * s ^ 2))))"
proof -
  have d: "m_1 + m_2 * (sin (theta1 - theta2)) ^ 2 \<noteq> 0"
    using shared_denominator_pos [of m_1 m_2 "sin (theta1 - theta2)"] assms by simp
  have l: "L_1 \<noteq> 0" "L_2 \<noteq> 0"
    using assms by simp_all
  show ?thesis
    by (simp add: derive_def Let_def fdiv_Some d l)
qed

theorem derive_formula_witness:
  "(0::real) < 1 \<and> derive (0, 1, 0, 2) 0 1 1 1 1 = Some (1, 0, 2, 0)"
  using derive_formula [of 1 1 1 1 0 1 0 2 0] by simp

text \<open>
  Claim C9. For strictly positive masses the divisor \<open>m1 + m2 * sin\<^sup>2(theta1 - theta2)\<close>
  that both accelerations share is strictly positive, so the division by it is never the
  one that fails: \<open>derive\<close> has a non-finite result exactly when a rod length is zero.
\<close>

theorem denominator_positive:
  assumes "0 < m_1" and "0 < m_2"
  shows "0 < m_1 + m_2 * (sin (theta1 - theta2)) ^ 2
         \<and> (derive (theta1, omega1, theta2, omega2) t L_1 L_2 m_1 m_2 = None
              \<longleftrightarrow> L_1 = 0 \<or> L_2 = 0)"
proof -
  have d: "0 < m_1 + m_2 * (sin (theta1 - theta2)) ^ 2"
    using shared_denominator_pos [of m_1 m_2] assms by simp
  then have "m_1 + m_2 * (sin (theta1 - theta2)) ^ 2 \<noteq> 0"
    by simp
  then have "derive (theta1, omega1, theta2, omega2) t L_1 L_2 m_1 m_2 = None
               \<longleftrightarrow> L_1 = 0 \<or> L_2 = 0"
    by (simp add: derive_def Let_def fdiv_def)
  with d show ?thesis by simp
qed

theorem denominator_positive_witness:
  "(0::real) < 1 \<and> 0 < (1::real) + 1 * (sin (pi / 2 - 0)) ^ 2
   \<and> derive (pi / 2, 0, 0, 0) 0 1 1 1 1 \<noteq> None \<and> derive (pi / 2, 0, 0, 0) 0 0 1 1 1 = None"
  using denominator_positive [of 1 1 "pi / 2" 0 0 0 0 1 1]
    denominator_positive [of 1 1 "pi / 2" 0 0 0 0 0 1]
  by simp

subsection \<open>The total energy\<close>

text \<open>
  Claim C6. For every state, \<open>total_energy\<close> is the potential plus the kinetic energy,
  with \<open>potential = -(m1+m2)*L1*g*cos(theta1) - m2*L2*g*cos(theta2)\<close> and
  \<open>kinetic = 0.5*m1*(L1*omega1)\<^sup>2 + 0.5*m2*((L1*omega1)\<^sup>2 + (L2*omega2)\<^sup>2 +
  2*L1*L2*omega1*omega2*cos(theta1-theta2))\<close>; when both angular velocities are zero the
  kinetic energy is exactly 0.
\<close>

theorem total_energy_formula:
  "total_energy p (theta1, omega1, theta2, omega2) =
     potential p (theta1, omega1, theta2, omega2) + kinetic p (theta1, omega1, theta2, omega2)
   \<and> potential p (theta1, omega1, theta2, omega2) =
       - (m1 p + m2 p) * L1 p * g * cos theta1 - m2 p * L2 p * g * cos theta2
   \<and> kinetic p (theta1, omega1, theta2, omega2) =
       0.5 * m1 p * (L1 p * omega1) ^ 2
       + 0.5 * m2 p * ((L1 p * omega1) ^ 2 + (L2 p * omega2) ^ 2
                       + 2 * L1 p * L2 p * omega1 * omega2 * cos (theta1 - theta2))
   \<and> kinetic p (theta1, 0, theta2, 0) = 0"
  by (simp add: total_energy_def potential_def kinetic_def)

text \<open>
  Claim C7, as stated: swapping \<open>(theta1, omega1)\<close> with \<open>(theta2, omega2)\<close> together with
  \<open>(L1, m1)\<close> and \<open>(L2, m2)\<close> leaves the energy unchanged. It fails already for the
  script's own parameters, with the first rod hanging down and the second pointing up,
  both at rest: the energy is \<open>-g\<close> before the swap and \<open>g\<close> after it.
\<close>

theorem swap_counterexample:
  "total_energy (swap_params globals) (swap_state (0, 0, pi, 0))
     \<noteq> total_energy globals (0, 0, pi, 0)"
  by (simp add: total_energy_def potential_def kinetic_def swap_state_def swap_params_def
      globals_def g_def)

text \<open>
  Claim C7, amended: the swap changes the energy by exactly
  \<open>m2*L1*g*cos(theta1) - m1*L2*g*cos(theta2) + 0.5*m1*(L2*omega2)\<^sup>2 -
  0.5*m2*(L1*omega1)\<^sup>2 + (m1-m2)*L1*L2*omega1*omega2*cos(theta1-theta2)\<close>, so the energy is
  unchanged exactly when this quantity is zero. The second bob hangs from the first, and
  the energy is not symmetric in the two.
\<close>

theorem swap_difference:
  "total_energy (swap_params p) (swap_state (theta1, omega1, theta2, omega2))
     = total_energy p (theta1, omega1, theta2, omega2)
       + (m2 p * L1 p * g * cos theta1 - m1 p * L2 p * g * cos theta2
          + 0.5 * m1 p * (L2 p * omega2) ^ 2 - 0.5 * m2 p * (L1 p * omega1) ^ 2
          + (m1 p - m2 p) * L1 p * L2 p * omega1 * omega2 * cos (theta1 - theta2))"
proof -
  have c: "cos (theta2 - theta1) = cos (theta1 - theta2)"
    by (metis cos_minus minus_diff_eq)
  show ?thesis
    by (simp add: total_energy_def potential_def kinetic_def swap_state_def swap_params_def
        c algebra_simps)
qed

subsection \<open>The energy check\<close>

lemma energy_drift_sum:
  "energy_drift p y0 y = (\<Sum>i<length y. \<bar>total_energy p (y ! i) - total_energy p y0\<bar>)"
proof -
  have "sum_list (map (\<lambda>row. \<bar>total_energy p row - total_energy p y0\<bar>) y)
          = (\<Sum>i = 0..<length y. map (\<lambda>row. \<bar>total_energy p row - total_energy p y0\<bar>) y ! i)"
    by (simp add: sum_list_sum_nth)
  also have "\<dots> = (\<Sum>i = 0..<length y. \<bar>total_energy p (y ! i) - total_energy p y0\<bar>)"
    by (rule sum.cong) simp_all
  finally show ?thesis
    by (simp add: energy_drift_def Let_def atLeast0LessThan)
qed

lemma max_trail_50: "py_int (trail_secs / dt) = 50"
  by (simp add: py_int_def trail_secs_def dt_def)

lemma energy_still: "total_energy globals (0, w, 0, 0) = w ^ 2 - 3 * g"
  by (simp add: total_energy_def potential_def kinetic_def globals_def algebra_simps)

text \<open>
  Claim C1. For every trajectory the check takes \<open>E0\<close> as the energy of the initial
  state and the drift as the sum over all samples of \<open>|EnergyTrace[i] - E0|\<close>, one
  scalar for the whole trace, and the run is rejected exactly when this sum is strictly
  greater than \<open>EDRIFT\<close>.
\<close>

theorem energy_guard_sum:
  "(isl (script p y0 y)
      \<longleftrightarrow> EDRIFT < (\<Sum>i<length y. \<bar>total_energy p (y ! i) - total_energy p y0\<bar>))
   \<and> energy_drift p y0 y = (\<Sum>i<length y. \<bar>total_energy p (y ! i) - total_energy p y0\<bar>)"
  by (simp add: script_def Let_def energy_drift_sum)

text \<open>
  Two samples that each deviate by 0.04, within the tolerance 0.05, are rejected: their
  sum 0.08 is what is compared, not their maximum.
\<close>

theorem energy_guard_sum_witness:
  "isl (script globals (0, 0, 0, 0) [(0, 0.2, 0, 0), (0, 0.2, 0, 0)])
   \<and> \<bar>total_energy globals (0, 0.2, 0, 0) - total_energy globals (0, 0, 0, 0)\<bar> \<le> EDRIFT"
  using energy_guard_sum [of globals "(0, 0, 0, 0)" "[(0, 0.2, 0, 0), (0, 0.2, 0, 0)]"]
  by (simp add: energy_still EDRIFT_def lessThan_Suc numeral_2_eq_2 power2_eq_square)

text \<open>
  Claim C3, as stated: when the check fails, the exit message reports both the measured
  drift and the tolerance. For a trajectory whose drift is 1 the message is built from
  \<open>EDRIFT\<close> alone, and the value 1 is not in it.
\<close>

theorem exit_message_counterexample:
  "script globals (0, 0, 0, 0) [(0, 1, 0, 0)]
     = Inl (SystemExit (Message (Format ''Maximum energy drift of {} exceeded.'' [EDRIFT])))
   \<and> energy_drift globals (0, 0, 0, 0) [(0, 1, 0, 0)] = 1
   \<and> \<not> reports (Format ''Maximum energy drift of {} exceeded.'' [EDRIFT]) 1"
  by (simp add: script_def energy_drift_def energy_still EDRIFT_def)

text \<open>
  Claim C3, amended: when the check fails, the run ends in \<open>sys.exit\<close> with a message,
  hence with exit status 1, and the message \<open>Maximum energy drift of {} exceeded.\<close>
  reports the tolerance \<open>EDRIFT\<close> and not the measured drift; the result is the exit
  alone, and no coordinate array or trail exists for the renderer.
\<close>

theorem exit_on_drift:
  assumes "EDRIFT < energy_drift p y0 y"
  shows "let msg = Format ''Maximum energy drift of {} exceeded.'' [EDRIFT]
         in script p y0 y = Inl (SystemExit (Message msg))
            \<and> exit_status (SystemExit (Message msg)) = 1
            \<and> reports msg EDRIFT
            \<and> \<not> reports msg (energy_drift p y0 y)"
  using assms by (simp add: script_def Let_def)

theorem exit_on_drift_witness:
  "EDRIFT < energy_drift globals (0, 0, 0, 0) [(0, 1, 0, 0)]
   \<and> script globals (0, 0, 0, 0) [(0, 1, 0, 0)]
       = Inl (SystemExit (Message (Format ''Maximum energy drift of {} exceeded.'' [EDRIFT])))"
proof -
  have h: "EDRIFT < energy_drift globals (0, 0, 0, 0) [(0, 1, 0, 0)]"
    by (simp add: energy_drift_def energy_still EDRIFT_def)
  from exit_on_drift [OF h] h show ?thesis
    by (simp add: Let_def)
qed

subsection \<open>The Cartesian conversion\<close>

text \<open>
  Claim C8. For every sample \<open>i\<close> of an accepted trajectory, the first bob is at
  \<open>(L1*sin(theta1[i]), -L1*cos(theta1[i]))\<close> and the second at the first plus
  \<open>(L2*sin(theta2[i]), -L2*cos(theta2[i]))\<close>; the four arrays have one entry per sample;
  for \<open>theta1 = theta2 = 0\<close> the bobs are at \<open>(0, -L1)\<close> and \<open>(0, -L1-L2)\<close>.
\<close>

theorem cartesian_projection:
  assumes "script p y0 y = Inr sc" and "i < length y"
    and "y ! i = (theta1, omega1, theta2, omega2)"
  shows "length (x1 sc) = length y \<and> length (y1 sc) = length y
         \<and> length (x2 sc) = length y \<and> length (y2 sc) = length y
         \<and> (x1 sc ! i, y1 sc ! i) = (L1 p * sin theta1, - L1 p * cos theta1)
         \<and> (x2 sc ! i, y2 sc ! i)
             = (x1 sc ! i + L2 p * sin theta2, y1 sc ! i - L2 p * cos theta2)
         \<and> (theta1 = 0 \<and> theta2 = 0 \<longrightarrow>
              (x1 sc ! i, y1 sc ! i) = (0, - L1 p)
              \<and> (x2 sc ! i, y2 sc ! i) = (0, - L1 p - L2 p))"
  using assms by (auto simp add: script_def Let_def split: if_splits)

theorem cartesian_projection_witness:
  "script globals (0, 0, 0, 0) [(0, 0, 0, 0)]
     = Inr \<lparr>x1 = [0], y1 = [-1], x2 = [0], y2 = [-2], max_trail = 50\<rparr>
   \<and> (x2 \<lparr>x1 = [0], y1 = [-1], x2 = [0], y2 = [-2], max_trail = 50\<rparr> ! 0,
       y2 \<lparr>x1 = [0], y1 = [-1], x2 = [0], y2 = [-2], max_trail = 50\<rparr> ! 0)
      = (0, - L1 globals - L2 globals)"
proof -
  have h: "script globals (0, 0, 0, 0) [(0, 0, 0, 0)]
     = Inr \<lparr>x1 = [0], y1 = [-1], x2 = [0], y2 = [-2], max_trail = 50\<rparr>"
    by (simp add: script_def Let_def energy_drift_def EDRIFT_def max_trail_50 globals_def)
  from cartesian_projection [OF h, of 0 0 0 0 0] h show ?thesis
    by simp
qed

subsection \<open>The trail\<close>

lemma slice_clamped:
  assumes "0 \<le> lo" and "0 \<le> hi"
  shows "slice xs lo hi = map (\<lambda>k. xs ! k) [nat lo ..< min (nat hi) (length xs)]"
proof -
  define n where "n = length xs"
  define a where "a = min n (nat lo)"
  define b where "b = min n (nat hi)"
  have "slice xs lo hi = take (b - a) (drop a xs)"
    using assms by (simp add: slice_def slice_index_def Let_def a_def b_def n_def)
  also have "\<dots> = drop a (take b xs)"
    by (simp add: drop_take)
  also have "\<dots> = drop a (take b (map (\<lambda>k. xs ! k) [0 ..< length xs]))"
    by (simp only: map_nth)
  also have "\<dots> = map (\<lambda>k. xs ! k) (drop a (take b [0 ..< length xs]))"
    by (simp only: take_map drop_map)
  also have "drop a (take b [0 ..< length xs]) = [a ..< b]"
    by (simp add: b_def n_def)
  also have "[a ..< b] = [nat lo ..< b]"
    by (cases "nat lo \<le> n") (simp_all add: a_def b_def)
  finally show ?thesis
    by (simp add: b_def n_def min.commute)
qed

lemma trail_loop_map_filter:
  "trail_loop sc i ns s js =
     map (\<lambda>j. \<lparr>seg_x = slice (x2 sc) (i - (ns - j) * s) (i - (ns - j) * s + s + 1),
                seg_y = slice (y2 sc) (i - (ns - j) * s) (i - (ns - j) * s + s + 1),
                alpha = (real_of_int j / real_of_int ns) ^ 2\<rparr>)
         (filter (\<lambda>j. \<not> i - (ns - j) * s < 0) js)"
  by (induction js) (simp_all add: Let_def)

lemma filter_upto_upward:
  assumes "\<And>j j'. P j \<Longrightarrow> j \<le> j' \<Longrightarrow> P j'"
  shows "\<exists>c. a \<le> c \<and> filter P [a..b] = [c..b]"
proof (induction a b rule: upto.induct)
  case (1 a b)
  show ?case
  proof (cases "a \<le> b")
    case False
    then show ?thesis by (intro exI [of _ a]) simp
  next
    case le: True
    show ?thesis
    proof (cases "P a")
      case True
      then have "\<forall>x\<in>set [a..b]. P x"
        using assms by auto
      then have "filter P [a..b] = [a..b]"
        by (simp add: filter_id_conv)
      then show ?thesis by (intro exI [of _ a]) simp
    next
      case False
      from 1 [OF le] obtain c where c: "a + 1 \<le> c" "filter P [a + 1..b] = [c..b]"
        by blast
      have "filter P [a..b] = filter P [a + 1..b]"
        using le False by (simp add: upto_rec1)
      with c show ?thesis by (intro exI [of _ c]) simp
    qed
  qed
qed


lemma trail_at_map_filter:
  "trail_at sc i =
     map (\<lambda>j. \<lparr>seg_x = slice (x2 sc) (i - (20 - j) * (max_trail sc div 20))
                                   (i - (20 - j) * (max_trail sc div 20) + max_trail sc div 20 + 1),
                seg_y = slice (y2 sc) (i - (20 - j) * (max_trail sc div 20))
                                   (i - (20 - j) * (max_trail sc div 20) + max_trail sc div 20 + 1),
                alpha = (real_of_int j / 20) ^ 2\<rparr>)
         (filter (\<lambda>j. \<not> i - (20 - j) * (max_trail sc div 20) < 0) [0 .. 19])"
  by (simp add: trail_at_def Let_def trail_loop_map_filter)

lemma trail_filter_all:
  fixes s i :: int
  assumes "0 \<le> s" and "20 * s \<le> i"
  shows "filter (\<lambda>j. \<not> i - (20 - j) * s < 0) [0 .. 19] = [0 .. 19]"
proof -
  have "\<not> i - (20 - j) * s < 0" if "j \<in> set [0 .. 19]" for j
  proof -
    from that have "0 \<le> j" by simp
    then have "(20 - j) * s \<le> 20 * s"
      using assms(1) by (intro mult_right_mono) simp_all
    with assms(2) show ?thesis by linarith
  qed
  then show ?thesis
    by (simp only: filter_id_conv) blast
qed

lemma trail_filter_less:
  fixes s i :: int
  assumes "i < 20 * s"
  shows "length (filter (\<lambda>j. \<not> i - (20 - j) * s < 0) [0 .. 19]) < 20"
proof -
  have "(0::int) \<in> set [0 .. 19]" by simp
  moreover have "\<not> \<not> i - (20 - 0) * s < 0" using assms by simp
  ultimately have "length (filter (\<lambda>j. \<not> i - (20 - j) * s < 0) [0 .. 19]) < length [0 .. (19::int)]"
    by (rule length_filter_less)
  then show ?thesis by simp
qed

lemma trail_length:
  assumes "0 \<le> max_trail sc"
  shows "(i < 20 * (max_trail sc div 20) \<longrightarrow> length (trail_at sc i) < 20)
         \<and> (20 * (max_trail sc div 20) \<le> i \<longrightarrow> length (trail_at sc i) = 20)"
proof -
  have s: "0 \<le> max_trail sc div 20"
    using assms by (simp add: pos_imp_zdiv_nonneg_iff)
  show ?thesis
    using trail_filter_less [of i "max_trail sc div 20"] trail_filter_all [OF s, of i]
    by (simp add: trail_at_map_filter)
qed

text \<open>
  Claim C2, amended: with \<open>ns = 20\<close> and \<open>max_trail = 50\<close>, hence \<open>s = 2\<close>, the trail of
  every frame \<open>i < ns * s = 40\<close> has strictly fewer than \<open>ns\<close> segments and the trail of
  every frame \<open>i \<ge> 40\<close> has exactly \<open>ns\<close>; at frame 49 the first segment is the one of
  \<open>j = 0\<close>, with \<open>imin = 9\<close>, \<open>imax = 12\<close> and \<open>alpha = 0\<close>.
\<close>

theorem trail_count:
  assumes "max_trail sc = 50"
  shows "(i < 40 \<longrightarrow> length (trail_at sc i) < 20)
         \<and> (40 \<le> i \<longrightarrow> length (trail_at sc i) = 20)
         \<and> hd (trail_at sc 49)
             = \<lparr>seg_x = slice (x2 sc) 9 12, seg_y = slice (y2 sc) 9 12, alpha = 0\<rparr>"
proof -
  have "hd (trail_at sc 49)
          = \<lparr>seg_x = slice (x2 sc) 9 12, seg_y = slice (y2 sc) 9 12, alpha = 0\<rparr>"
    using trail_filter_all [of 2 49]
    by (simp add: trail_at_map_filter assms upto_rec1 [of 0 19])
  with trail_length [of sc i] assms show ?thesis
    by simp
qed


lemma script_at_rest:
  "script globals (0, 0, 0, 0) (replicate n (0, 0, 0, 0)) = Inr (scene_at_rest n)"
  by (simp add: script_def Let_def energy_drift_def EDRIFT_def max_trail_50 globals_def
      scene_at_rest_def sum_list_replicate zip_replicate)

lemma alpha_increasing:
  "sorted_wrt (<) (map (\<lambda>j. (real_of_int j / 20) ^ 2) (filter P [0 .. 19]))"
proof -
  have "sorted_wrt (\<lambda>a b. (real_of_int a / 20) ^ 2 < (real_of_int b / 20) ^ 2) [0 .. 19]"
  proof (rule sorted_wrt_mono_rel [OF _ sorted_wrt_upto])
    fix a b :: int
    assume "a \<in> set [0 .. 19]" and "a < b"
    then have "0 \<le> real_of_int a / 20" and "real_of_int a / 20 < real_of_int b / 20"
      by simp_all
    then show "(real_of_int a / 20) ^ 2 < (real_of_int b / 20) ^ 2"
      by (intro power_strict_mono) simp_all
  qed
  then show ?thesis
    by (simp add: sorted_wrt_map sorted_wrt_filter)
qed

text \<open>
  Claim C4. For every frame \<open>i\<close> the loop runs \<open>j\<close> over \<open>0..ns-1\<close> with
  \<open>s = max_trail // ns\<close> and \<open>imin = i - (ns-j)*s\<close>, emits nothing when \<open>imin < 0\<close>, and
  otherwise emits the segment of the points \<open>bob2[imin : imin+s+1]\<close>, clamped to the
  trajectory, with \<open>alpha = (j/ns)\<^sup>2\<close>; the alphas of the emitted segments are strictly
  increasing. \<open>max_trail\<close> is a number of samples and so not negative.
\<close>

theorem trail_refines_spec:
  assumes "0 \<le> max_trail sc"
  shows "trail_at sc i = trail_spec sc i \<and> sorted_wrt (<) (map alpha (trail_at sc i))"
proof -
  define s where "s = max_trail sc div 20"
  have s: "0 \<le> s"
    using assms by (simp add: s_def pos_imp_zdiv_nonneg_iff)
  have sl: "slice xs (i - (20 - j) * s) (i - (20 - j) * s + s + 1)
              = map (\<lambda>k. xs ! k)
                  [nat (i - (20 - j) * s) ..< min (nat (i - (20 - j) * s) + nat s + 1) (length xs)]"
    if "\<not> i - (20 - j) * s < 0" for j and xs :: "real list"
  proof -
    from that s have "nat (i - (20 - j) * s + s + 1) = nat (i - (20 - j) * s) + nat s + 1"
      by linarith
    with that s show ?thesis
      by (simp add: slice_clamped)
  qed
  have "trail_at sc i = trail_spec sc i"
    unfolding trail_at_map_filter trail_spec_def Let_def s_def [symmetric]
    by (rule map_cong) (simp_all add: sl)
  moreover have "sorted_wrt (<) (map alpha (trail_at sc i))"
    using alpha_increasing by (simp add: trail_at_map_filter comp_def)
  ultimately show ?thesis by simp
qed


lemma getitem_Some_nonneg:
  assumes "getitem xs i = Some v" and "0 \<le> i"
  shows "nat i < length xs"
  using assms by (simp add: getitem_def Let_def split: if_splits)

lemma make_plot_Some:
  assumes "make_plot sc i = Some f"
  shows "trail f = trail_at sc i
         \<and> (\<exists>v. getitem (x2 sc) i = Some v) \<and> (\<exists>v. getitem (y2 sc) i = Some v)"
  using assms by (auto simp add: make_plot_def split: bind_splits)

text \<open>
  Claim C10. In every frame that \<open>make_plot\<close> draws, two segments emitted one after the
  other are those of some \<open>j\<close> and \<open>j + 1\<close>; the first covers the indices \<open>imin\<close> to
  \<open>imin + s\<close> inclusive and the second \<open>imin + s\<close> to \<open>imin + 2*s\<close> inclusive, all within
  the trajectory and not beyond the frame \<open>i\<close>, so that the two share exactly the sample
  \<open>imin + s\<close>.
\<close>

theorem trail_contiguous:
  assumes "0 \<le> max_trail sc" and "make_plot sc i = Some f" and "Suc k < length (trail f)"
  shows "\<exists>j. 0 \<le> j \<and> j + 1 < 20 \<and>
           (let s = max_trail sc div 20; imin = i - (20 - j) * s
            in 0 \<le> imin \<and> imin + 2 * s \<le> i
               \<and> nat i < length (x2 sc) \<and> nat i < length (y2 sc)
               \<and> set [nat imin ..< nat (imin + s) + 1] \<inter> set [nat (imin + s) ..< nat (imin + 2 * s) + 1]
                   = {nat (imin + s)}
               \<and> alpha (trail f ! k) = (real_of_int j / 20) ^ 2
               \<and> alpha (trail f ! Suc k) = (real_of_int (j + 1) / 20) ^ 2
               \<and> seg_x (trail f ! k) = map (\<lambda>n. x2 sc ! n) [nat imin ..< nat (imin + s) + 1]
               \<and> seg_y (trail f ! k) = map (\<lambda>n. y2 sc ! n) [nat imin ..< nat (imin + s) + 1]
               \<and> seg_x (trail f ! Suc k)
                   = map (\<lambda>n. x2 sc ! n) [nat (imin + s) ..< nat (imin + 2 * s) + 1]
               \<and> seg_y (trail f ! Suc k)
                   = map (\<lambda>n. y2 sc ! n) [nat (imin + s) ..< nat (imin + 2 * s) + 1])"
proof -
  define s where "s = max_trail sc div 20"
  define P where "P = (\<lambda>j. \<not> i - (20 - j) * s < 0)"
  have s: "0 \<le> s"
    using assms(1) by (simp add: s_def pos_imp_zdiv_nonneg_iff)
  have up: "P j'" if "P j" and "j \<le> j'" for j j'
  proof -
    from that(2) s have "(20 - j') * s \<le> (20 - j) * s"
      by (intro mult_right_mono) simp_all
    with that(1) show ?thesis by (simp add: P_def)
  qed
  define F where "F = (\<lambda>j. \<lparr>seg_x = slice (x2 sc) (i - (20 - j) * s) (i - (20 - j) * s + s + 1),
                            seg_y = slice (y2 sc) (i - (20 - j) * s) (i - (20 - j) * s + s + 1),
                            alpha = (real_of_int j / 20) ^ 2\<rparr>)"
  have tl: "trail_at sc i = map F (filter P [0 .. 19])"
    by (simp only: trail_at_map_filter P_def F_def s_def)
  from filter_upto_upward [of P 0 19] up
  obtain c where c: "0 \<le> c" "filter P [0 .. 19] = [c .. 19]"
    by blast
  from make_plot_Some [OF assms(2)]
  have tr: "trail f = trail_at sc i"
    and gx: "\<exists>v. getitem (x2 sc) i = Some v" and gy: "\<exists>v. getitem (y2 sc) i = Some v"
    by simp_all
  have tc: "trail f = map F [c .. 19]"
    by (simp only: tr tl c(2))
  have len: "length (trail f) = length [c .. 19]"
    by (simp only: tc length_map)
  define j where "j = c + int k"
  from assms(3) len have k: "c + int (Suc k) \<le> 19"
    by simp
  then have j: "0 \<le> j" "j + 1 < 20" "j + 1 = c + int (Suc k)"
    using c(1) by (simp_all add: j_def)
  have nk: "[c .. 19] ! k = j" and nk': "[c .. 19] ! Suc k = j + 1"
    using k by (simp_all add: j_def)
  have "j \<in> set [c .. 19]"
    using k by (simp add: j_def)
  then have "j \<in> set (filter P [0 .. 19])"
    by (simp only: c(2))
  then have Pj: "P j" by simp
  define imin where "imin = i - (20 - j) * s"
  have imin: "0 \<le> imin"
    using Pj by (simp add: P_def imin_def)
  have "imin + 2 * s = i - (18 - j) * s"
    by (simp add: imin_def algebra_simps)
  moreover have "0 \<le> (18 - j) * s"
    using j s by (intro mult_nonneg_nonneg) simp_all
  ultimately have top: "imin + 2 * s \<le> i"
    by linarith
  with imin s have i0: "0 \<le> i" by linarith
  from gx gy i0 have lx: "nat i < length (x2 sc)" and ly: "nat i < length (y2 sc)"
    by (auto dest: getitem_Some_nonneg)
  have e: "trail f ! k
             = \<lparr>seg_x = slice (x2 sc) imin (imin + s + 1),
                seg_y = slice (y2 sc) imin (imin + s + 1),
                alpha = (real_of_int j / 20) ^ 2\<rparr>"
    using assms(3) len
    by (simp add: tc nk F_def imin_def del: length_upto)
  have im': "i - (20 - (j + 1)) * s = imin + s"
    by (simp add: imin_def algebra_simps)
  have e': "trail f ! Suc k
             = \<lparr>seg_x = slice (x2 sc) (imin + s) (imin + s + s + 1),
                seg_y = slice (y2 sc) (imin + s) (imin + s + s + 1),
                alpha = (real_of_int (j + 1) / 20) ^ 2\<rparr>"
  proof -
    have "trail f ! Suc k = F (j + 1)"
      using assms(3) len by (simp add: tc nk' del: length_upto)
    then show ?thesis
      by (simp only: F_def im')
  qed
  have sl: "slice xs a (a + s + 1) = map (\<lambda>n. xs ! n) [nat a ..< nat (a + s) + 1]"
    if "0 \<le> a" and "a + s \<le> i" and "nat i < length xs" for a and xs :: "real list"
  proof -
    from that s have "nat (a + s + 1) = nat (a + s) + 1" and "nat (a + s) + 1 \<le> length xs"
      by linarith+
    with that s show ?thesis
      by (simp add: slice_clamped min_absorb1)
  qed
  have a1: "imin + s \<le> i" and a2: "0 \<le> imin + s" and a3: "imin + s + s \<le> i"
    using top s imin by linarith+
  have "seg_x (trail f ! k) = map (\<lambda>n. x2 sc ! n) [nat imin ..< nat (imin + s) + 1]"
    and "seg_y (trail f ! k) = map (\<lambda>n. y2 sc ! n) [nat imin ..< nat (imin + s) + 1]"
    and "seg_x (trail f ! Suc k)
           = map (\<lambda>n. x2 sc ! n) [nat (imin + s) ..< nat (imin + 2 * s) + 1]"
    and "seg_y (trail f ! Suc k)
           = map (\<lambda>n. y2 sc ! n) [nat (imin + s) ..< nat (imin + 2 * s) + 1]"
    using sl [OF imin a1 lx] sl [OF imin a1 ly] sl [OF a2 a3 lx] sl [OF a2 a3 ly]
    by (simp_all add: e e' add.assoc)
  moreover have "set [nat imin ..< nat (imin + s) + 1] \<inter> set [nat (imin + s) ..< nat (imin + 2 * s) + 1]
                   = {nat (imin + s)}"
    using imin s by auto
  ultimately have segs: "set [nat imin ..< nat (imin + s) + 1] \<inter> set [nat (imin + s) ..< nat (imin + 2 * s) + 1]
                   = {nat (imin + s)}
    \<and> seg_x (trail f ! k) = map (\<lambda>n. x2 sc ! n) [nat imin ..< nat (imin + s) + 1]
    \<and> seg_y (trail f ! k) = map (\<lambda>n. y2 sc ! n) [nat imin ..< nat (imin + s) + 1]
    \<and> seg_x (trail f ! Suc k)
           = map (\<lambda>n. x2 sc ! n) [nat (imin + s) ..< nat (imin + 2 * s) + 1]
    \<and> seg_y (trail f ! Suc k)
           = map (\<lambda>n. y2 sc ! n) [nat (imin + s) ..< nat (imin + 2 * s) + 1]"
    by (simp only: simp_thms)
  have al: "alpha (trail f ! k) = (real_of_int j / 20) ^ 2"
    and al': "alpha (trail f ! Suc k) = (real_of_int (j + 1) / 20) ^ 2"
    by (simp_all only: e e' segment.simps)
  from j(1,2) imin top lx ly al al' segs show ?thesis
    unfolding Let_def s_def [symmetric] imin_def
    by (intro exI [of _ j]) (simp only: simp_thms)
qed


lemma make_plot_at_rest:
  "make_plot (scene_at_rest 50) 49
     = Some \<lparr>rod_x = [0, 0, 0], rod_y = [0, - 1, - 2],
             circles = [((0, 0), r / 2), ((0, - 1), r), ((0, - 2), r)],
             trail = trail_at (scene_at_rest 50) 49\<rparr>"
  by (simp add: make_plot_def getitem_def scene_at_rest_def)

text \<open>
  Claim C2, as stated: every frame \<open>i < max_trail\<close> has strictly fewer than \<open>ns\<close>
  segments. Frame 49 of a pendulum at rest is below \<open>max_trail = 50\<close>, \<open>make_plot\<close> draws
  it, and its trail has all 20 segments: the trail reaches back \<open>ns * s = 40\<close> samples,
  not 50.
\<close>

theorem trail_count_counterexample:
  "49 < max_trail (scene_at_rest 50)
   \<and> map_option trail (make_plot (scene_at_rest 50) 49) = Some (trail_at (scene_at_rest 50) 49)
   \<and> \<not> length (trail_at (scene_at_rest 50) 49) < 20"
  using trail_length [of "scene_at_rest 50" 49]
  by (simp add: make_plot_at_rest) (simp add: scene_at_rest_def)

theorem trail_count_witness:
  "max_trail (scene_at_rest 50) = 50
   \<and> length (trail_at (scene_at_rest 50) 39) < 20
   \<and> length (trail_at (scene_at_rest 50) 40) = 20"
proof -
  have h: "max_trail (scene_at_rest 50) = 50"
    by (simp add: scene_at_rest_def)
  from trail_count [OF h, of 39] trail_count [OF h, of 40] h show ?thesis
    by simp
qed

theorem trail_refines_spec_witness:
  "0 \<le> max_trail (scene_at_rest 50)
   \<and> trail_at (scene_at_rest 50) 49 = trail_spec (scene_at_rest 50) 49"
proof -
  have h: "0 \<le> max_trail (scene_at_rest 50)"
    by (simp add: scene_at_rest_def)
  from trail_refines_spec [OF h, of 49] h show ?thesis
    by simp
qed

theorem trail_contiguous_witness:
  "\<exists>f. make_plot (scene_at_rest 50) 49 = Some f \<and> Suc 0 < length (trail f)
       \<and> (\<exists>m. seg_x (trail f ! 0) = map (\<lambda>n. x2 (scene_at_rest 50) ! n) [m ..< m + 3]
              \<and> seg_x (trail f ! Suc 0) = map (\<lambda>n. x2 (scene_at_rest 50) ! n) [m + 2 ..< m + 5])"
proof -
  define f where "f = \<lparr>rod_x = [0, 0, 0], rod_y = [0, - 1, - 2],
             circles = [((0, 0), r / 2), ((0, - 1), r), ((0, - 2), r)],
             trail = trail_at (scene_at_rest 50) 49\<rparr>"
  have h0: "0 \<le> max_trail (scene_at_rest 50)" and mt: "max_trail (scene_at_rest 50) = 50"
    by (simp_all add: scene_at_rest_def)
  have hf: "make_plot (scene_at_rest 50) 49 = Some f"
    by (simp only: make_plot_at_rest f_def)
  have hk: "Suc 0 < length (trail f)"
    using trail_length [OF h0, of 49] by (simp add: f_def mt)
  have d: "(50::int) div 20 = 2" by simp
  from trail_contiguous [OF h0 hf hk] obtain j where
    j: "0 \<le> 49 - (20 - j) * 2"
      "seg_x (trail f ! 0)
         = map (\<lambda>n. x2 (scene_at_rest 50) ! n)
             [nat (49 - (20 - j) * 2) ..< nat (49 - (20 - j) * 2 + 2) + 1]"
      "seg_x (trail f ! Suc 0)
         = map (\<lambda>n. x2 (scene_at_rest 50) ! n)
             [nat (49 - (20 - j) * 2 + 2) ..< nat (49 - (20 - j) * 2 + 2 * 2) + 1]"
    unfolding Let_def mt d by blast
  have "nat (49 - (20 - j) * 2 + 2) + 1 = nat (49 - (20 - j) * 2) + 3"
    and "nat (49 - (20 - j) * 2 + 2) = nat (49 - (20 - j) * 2) + 2"
    and "nat (49 - (20 - j) * 2 + 2 * 2) + 1 = nat (49 - (20 - j) * 2) + 5"
    using j(1) by linarith+
  with j(2,3) have "seg_x (trail f ! 0)
         = map (\<lambda>n. x2 (scene_at_rest 50) ! n)
             [nat (49 - (20 - j) * 2) ..< nat (49 - (20 - j) * 2) + 3]
      \<and> seg_x (trail f ! Suc 0)
         = map (\<lambda>n. x2 (scene_at_rest 50) ! n)
             [nat (49 - (20 - j) * 2) + 2 ..< nat (49 - (20 - j) * 2) + 5]"
    by (simp only:)
  with hf hk show ?thesis by blast
qed

end
